theory Spec2Isabelle
  imports Complex_Main
begin

section \<open>Values of the page: numbers, errors, elements\<close>

text \<open>
  A JavaScript number is kept as a rational or \<open>NaN\<close>, with exact arithmetic: the
  rounding of IEEE doubles is not part of this model. The numbers \<open>moveAndOpen\<close>
  computes with are integers of the DOM (\<open>offsetTop\<close>, \<open>offsetHeight\<close>) and the
  result of \<open>parseInt\<close>, an integer or \<open>NaN\<close>; on integers of that size the
  addition and \<open>Math.floor\<close> of doubles are exact.
\<close>

datatype number = NaN | Num rat

fun num_add :: "number \<Rightarrow> number \<Rightarrow> number" where
  "num_add (Num a) (Num b) = Num (a + b)"
| "num_add _ _ = NaN"

fun Math_floor :: "number \<Rightarrow> number" where
  "Math_floor (Num a) = Num (of_int \<lfloor>a\<rfloor>)"
| "Math_floor NaN = NaN"

text \<open>
  An exception: \<open>TypeError p\<close> is the engine's error on reading property \<open>p\<close> of
  \<open>undefined\<close>; \<open>Error m\<close> is \<open>throw new Error(m)\<close>.
\<close>

datatype error = TypeError string | Error string

text \<open>
  A method either returns or throws; in both cases the state it leaves is kept, since
  what was mutated before a throw stays mutated.
\<close>

datatype 's outcome = Returned 's | Thrown error 's

fun state_of :: "'s outcome \<Rightarrow> 's" where
  "state_of (Returned s) = s"
| "state_of (Thrown e s) = s"

fun andThen :: "'s outcome \<Rightarrow> ('s \<Rightarrow> 's outcome) \<Rightarrow> 's outcome" where
  "andThen (Returned s) f = f s"
| "andThen (Thrown e s) f = Thrown e s"

subsection \<open>parseInt with radix 10\<close>

definition isWhiteSpace :: "char \<Rightarrow> bool" where
  "isWhiteSpace c = (of_char c \<in> {9, 10, 11, 12, 13, 32 :: nat})"

definition isDigit :: "char \<Rightarrow> bool" where
  "isDigit c = (48 \<le> (of_char c :: nat) \<and> (of_char c :: nat) \<le> 57)"

definition digitValue :: "char \<Rightarrow> nat" where
  "digitValue c = of_char c - 48"

definition digitsValue :: "string \<Rightarrow> nat" where
  "digitsValue ds = foldl (\<lambda>acc c. 10 * acc + digitValue c) 0 ds"

text \<open>
  \<open>parseInt(s, 10)\<close>: leading white space is skipped (the ASCII white space; a
  \<open>string\<close> here is a list of bytes), one sign is read, then the longest run of
  decimal digits; what follows the digits is ignored, and no digit at all gives
  \<open>NaN\<close>. With the radix given as 10 no \<open>0x\<close> prefix is recognised.
\<close>

definition parseInt :: "string \<Rightarrow> number" where
  "parseInt s =
     (let s1 = dropWhile isWhiteSpace s;
          negative = (case s1 of c # _ \<Rightarrow> c = CHR ''-'' | [] \<Rightarrow> False);
          s2 = (case s1 of c # r \<Rightarrow> (if c = CHR ''-'' \<or> c = CHR ''+'' then r else s1) | [] \<Rightarrow> s1);
          ds = takeWhile isDigit s2
      in if ds = [] then NaN
         else Num (of_int (if negative then - int (digitsValue ds) else int (digitsValue ds))))"

text \<open>
  The computed value of a padding is a non-negative pixel length, serialised as its
  whole part in decimal, a fraction when there is one, and the unit: \<open>8px\<close>,
  \<open>8.5px\<close>. \<open>css_px w ds\<close> is that string for the whole part \<open>w\<close> and the
  fraction digits \<open>ds\<close>, and \<open>px_value w ds\<close> the length it denotes.
\<close>

definition digitChar :: "nat \<Rightarrow> char" where
  "digitChar d = char_of (48 + d)"

fun decimal :: "nat \<Rightarrow> string" where
  "decimal n = (if n < 10 then [digitChar n] else decimal (n div 10) @ [digitChar (n mod 10)])"

declare decimal.simps [simp del]

definition css_px :: "nat \<Rightarrow> nat list \<Rightarrow> string" where
  "css_px w ds = decimal w @ (if ds = [] then [] else CHR ''.'' # map digitChar ds) @ ''px''"

definition px_value :: "nat \<Rightarrow> nat list \<Rightarrow> rat" where
  "px_value w ds = of_nat w + of_nat (foldl (\<lambda>acc d. 10 * acc + d) 0 ds) / 10 ^ length ds"

subsection \<open>Elements\<close>

text \<open>
  The inline \<open>style.top\<close> of an element: the template string \<open>`${n}px`\<close> is kept as
  \<open>TopPx n\<close>, the string \<open>'unset'\<close> as \<open>TopUnset\<close>, and \<open>TopInitial\<close> is the
  empty value of a fresh element. The value recorded is the one the code assigns.
\<close>

datatype css_top = TopInitial | TopUnset | TopPx number

record element =
  tagName :: string
  classList :: "string list"
  style_top :: css_top

definition classList_add :: "string \<Rightarrow> element \<Rightarrow> element" where
  "classList_add c e = (if c \<in> set (classList e) then e else e\<lparr>classList := classList e @ [c]\<rparr>)"

definition classList_remove :: "string \<Rightarrow> element \<Rightarrow> element" where
  "classList_remove c e = e\<lparr>classList := removeAll c (classList e)\<rparr>"

definition classList_contains :: "string \<Rightarrow> element \<Rightarrow> bool" where
  "classList_contains c e = (c \<in> set (classList e))"

text \<open>
  Modelled from the spec: \<open>$.make\<close> of \<open>components/dom\<close> (not under src/), the
  low-level node creation helper: a fresh element of the given tag carrying the given
  class name.
\<close>

definition dom_make :: "string \<Rightarrow> string \<Rightarrow> element" where
  "dom_make tag className = \<lparr>tagName = tag, classList = [className], style_top = TopInitial\<rparr>"

section \<open>Blocks\<close>

text \<open>
  What the toolbar and the tunes read of a \<open>Block\<close>: the geometry of its holder, the
  computed \<open>padding-top\<close> of its rendered content (a string, as \<open>getComputedStyle\<close>
  gives it), and its \<open>isEmpty\<close> and \<open>editable\<close> flags. \<open>block_id\<close> stands for the
  identity of the object.
\<close>

record block =
  block_id :: string
  holder_offsetTop :: int
  holder_offsetHeight :: int
  holder_rect_top :: rat
  pluginsContent_paddingTop :: string
  isEmpty :: bool
  editable :: bool

section \<open>The ConfigToolbar module\<close>

record ToolbarNodes =
  wrapper :: "element option"
  content :: "element option"
  actions :: "element option"
  plusButton :: "element option"
  settingsToggler :: "element option"

definition CSS_toolbar :: string where "CSS_toolbar = ''ce-config-toolbar''"
definition CSS_content :: string where "CSS_content = ''ce-config-toolbar__content''"
definition CSS_actions :: string where "CSS_actions = ''ce-config-toolbar__actions''"
definition CSS_actionsOpened :: string where
  "CSS_actionsOpened = ''ce-config-toolbar__actions--opened''"
definition CSS_toolbarOpened :: string where
  "CSS_toolbarOpened = ''ce-config-toolbar--opened''"
definition CSS_settingsToggler :: string where
  "CSS_settingsToggler = ''ce-config-toolbar__settings-btn''"
definition CSS_settingsTogglerHidden :: string where
  "CSS_settingsTogglerHidden = ''ce-config-toolbar__settings-btn--hidden''"

text \<open>
  The two event channels, the closures the module registers (named, since each is
  registered at one place of the source), and the calls the module makes on its
  collaborators, logged in the order they are made. The one subscription the module
  makes on the events dispatcher is \<open>on(BlockHovered, (data) => this.moveAndOpen(data.block))\<close>;
  the one listener it binds is the \<open>mousedown\<close> handler of the settings toggler.
\<close>

datatype channel = BlockHovered | SettingsClicked

datatype subscriber = HoverMoveAndOpen

fun channel_of :: "subscriber \<Rightarrow> channel" where
  "channel_of HoverMoveAndOpen = BlockHovered"

datatype listener = MousedownOnSettingsToggler

datatype idle_callback = DrawUIThenEnableBindings

record idle_request =
  callback :: idle_callback
  timeout :: nat

datatype collaborator_call =
    SetCurrentBlock "block option"
  | Emit channel "block option"

text \<open>
  The module instance together with what it reads and writes of the editor:
  \<open>config.hideConfigToolbar\<close> (absent, true or false), the Block Manager's blocks and
  current block, \<open>UI.isMobile\<close>, \<open>ReadOnly.isEnabled\<close>, the media query behind
  \<open>isMobileScreen()\<close>, the listeners held by \<open>readOnlyMutableListeners\<close>, the
  subscriptions held by \<open>eventsDispatcher\<close>, and the callbacks pending in
  \<open>window.requestIdleCallback\<close>.
\<close>

record toolbar =
  nodes :: ToolbarNodes
  hoveredBlock :: "block option"
  hideConfigToolbar :: "bool option"
  BlockManager_blocks :: "block list"
  BlockManager_currentBlock :: "block option"
  UI_isMobile :: bool
  ReadOnly_isEnabled :: bool
  isMobileScreen :: bool
  readOnlyMutableListeners :: "listener list"
  eventsDispatcher :: "subscriber list"
  idleCallbacks :: "idle_request list"
  calls :: "collaborator_call list"

subsection \<open>Getters\<close>

definition opened :: "toolbar \<Rightarrow> error + bool" where
  "opened s =
     (case wrapper (nodes s) of
        None \<Rightarrow> Inl (TypeError ''classList'')
      | Some w \<Rightarrow> Inr (classList_contains CSS_toolbarOpened w))"

definition blockActions_hide :: "toolbar \<Rightarrow> toolbar outcome" where
  "blockActions_hide s =
     (case actions (nodes s) of
        None \<Rightarrow> Thrown (TypeError ''classList'') s
      | Some a \<Rightarrow>
          Returned (s\<lparr>nodes := (nodes s)\<lparr>actions := Some (classList_remove CSS_actionsOpened a)\<rparr>\<rparr>))"

definition blockActions_show :: "toolbar \<Rightarrow> toolbar outcome" where
  "blockActions_show s =
     (case actions (nodes s) of
        None \<Rightarrow> Thrown (TypeError ''classList'') s
      | Some a \<Rightarrow>
          Returned (s\<lparr>nodes := (nodes s)\<lparr>actions := Some (classList_add CSS_actionsOpened a)\<rparr>\<rparr>))"

definition blockTunesToggler_hide :: "toolbar \<Rightarrow> toolbar outcome" where
  "blockTunesToggler_hide s =
     (case settingsToggler (nodes s) of
        None \<Rightarrow> Thrown (TypeError ''classList'') s
      | Some t \<Rightarrow>
          Returned (s\<lparr>nodes := (nodes s)
            \<lparr>settingsToggler := Some (classList_add CSS_settingsTogglerHidden t)\<rparr>\<rparr>))"

definition blockTunesToggler_show :: "toolbar \<Rightarrow> toolbar outcome" where
  "blockTunesToggler_show s =
     (case settingsToggler (nodes s) of
        None \<Rightarrow> Thrown (TypeError ''classList'') s
      | Some t \<Rightarrow>
          Returned (s\<lparr>nodes := (nodes s)
            \<lparr>settingsToggler := Some (classList_remove CSS_settingsTogglerHidden t)\<rparr>\<rparr>))"

text \<open>
  The fields of the spec's ToolbarState, read off the nodes: the actions zone is visible
  when it carries the opened marker, the settings toggler is visible when it does not
  carry the hidden marker, and the vertical offset is the wrapper's \<open>style.top\<close>.
\<close>

definition actionsVisible :: "toolbar \<Rightarrow> bool" where
  "actionsVisible s =
     (case actions (nodes s) of
        None \<Rightarrow> False
      | Some a \<Rightarrow> classList_contains CSS_actionsOpened a)"

definition settingsTogglerHidden :: "toolbar \<Rightarrow> bool" where
  "settingsTogglerHidden s =
     (case settingsToggler (nodes s) of
        None \<Rightarrow> False
      | Some t \<Rightarrow> classList_contains CSS_settingsTogglerHidden t)"

definition verticalOffset :: "toolbar \<Rightarrow> css_top option" where
  "verticalOffset s = map_option style_top (wrapper (nodes s))"

subsection \<open>open, reset, close\<close>

definition open_toolbar :: "bool \<Rightarrow> toolbar \<Rightarrow> toolbar outcome" where
  "open_toolbar withBlockActions s =
     (case wrapper (nodes s) of
        None \<Rightarrow> Thrown (TypeError ''classList'') s
      | Some w \<Rightarrow>
          (let s1 = s\<lparr>nodes := (nodes s)\<lparr>wrapper := Some (classList_add CSS_toolbarOpened w)\<rparr>\<rparr>
           in if withBlockActions then blockActions_show s1 else blockActions_hide s1))"

definition reset :: "toolbar \<Rightarrow> toolbar outcome" where
  "reset s =
     (case wrapper (nodes s) of
        None \<Rightarrow> Thrown (TypeError ''style'') s
      | Some w \<Rightarrow> Returned (s\<lparr>nodes := (nodes s)\<lparr>wrapper := Some (w\<lparr>style_top := TopUnset\<rparr>)\<rparr>\<rparr>))"

text \<open>
  \<open>close\<close>: the first statement is \<open>this.nodes.wrapper?.classList.remove(...)\<close>,
  which does nothing on an absent wrapper; \<open>blockActions.hide()\<close> and \<open>reset()\<close>
  read \<open>nodes.actions\<close> and \<open>nodes.wrapper\<close> with no such guard.
\<close>

definition close :: "toolbar \<Rightarrow> toolbar outcome" where
  "close s =
     (if ReadOnly_isEnabled s then Returned s
      else
        (let s1 = (case wrapper (nodes s) of
                     None \<Rightarrow> s
                   | Some w \<Rightarrow>
                       s\<lparr>nodes := (nodes s)\<lparr>wrapper := Some (classList_remove CSS_toolbarOpened w)\<rparr>\<rparr>)
         in andThen (blockActions_hide s1) reset))"

subsection \<open>moveAndOpen\<close>

text \<open>
  The argument \<open>None\<close> is a call with no block (or \<open>undefined\<close>): the parameter then
  takes its default, the Block Manager's current block.
\<close>

definition toolbarY :: "bool \<Rightarrow> block \<Rightarrow> number" where
  "toolbarY mobile b =
     (let blockRenderedElementPaddingTop = parseInt (pluginsContent_paddingTop b);
          blockHeight = Num (of_int (holder_offsetHeight b))
      in if mobile then num_add (Num (of_int (holder_offsetTop b))) blockHeight
         else num_add (Num (of_int (holder_offsetTop b))) blockRenderedElementPaddingTop)"

definition moveAndOpen :: "block option \<Rightarrow> toolbar \<Rightarrow> toolbar outcome" where
  "moveAndOpen arg s =
     (let block = (case arg of None \<Rightarrow> BlockManager_currentBlock s | Some b \<Rightarrow> Some b)
      in case block of
           None \<Rightarrow> Returned s
         | Some b \<Rightarrow>
             (case wrapper (nodes s) of
                None \<Rightarrow> Returned s
              | Some w \<Rightarrow>
                  (let s1 = s\<lparr>hoveredBlock := Some b\<rparr>;
                       y = toolbarY (UI_isMobile s1) b;
                       s2 = s1\<lparr>nodes := (nodes s1)
                              \<lparr>wrapper := Some (w\<lparr>style_top := TopPx (Math_floor y)\<rparr>)\<rparr>\<rparr>
                   in andThen
                        (if length (BlockManager_blocks s2) = 1 \<and> isEmpty b
                         then blockTunesToggler_hide s2
                         else blockTunesToggler_show s2)
                        (open_toolbar True))))"

subsection \<open>Events\<close>

text \<open>
  \<open>eventsDispatcher.emit\<close>: the emission is logged (the subscribers of other modules
  are outside this model), then the module's own subscribers of the channel run in
  registration order; a throw of one stops the delivery.
\<close>

fun run_subscriber :: "subscriber \<Rightarrow> block option \<Rightarrow> toolbar \<Rightarrow> toolbar outcome" where
  "run_subscriber HoverMoveAndOpen data_block s = moveAndOpen data_block s"

fun deliver :: "subscriber list \<Rightarrow> block option \<Rightarrow> toolbar \<Rightarrow> toolbar outcome" where
  "deliver [] data_block s = Returned s"
| "deliver (h # hs) data_block s = andThen (run_subscriber h data_block s) (deliver hs data_block)"

definition emit :: "channel \<Rightarrow> block option \<Rightarrow> toolbar \<Rightarrow> toolbar outcome" where
  "emit ch data_block s =
     deliver (filter (\<lambda>h. channel_of h = ch) (eventsDispatcher s)) data_block
       (s\<lparr>calls := calls s @ [Emit ch data_block]\<rparr>)"

definition emitBlockSettingsClicked :: "block option \<Rightarrow> toolbar \<Rightarrow> toolbar outcome" where
  "emitBlockSettingsClicked b s = emit SettingsClicked b s"

definition activate :: "block option \<Rightarrow> toolbar \<Rightarrow> toolbar outcome" where
  "activate b s = emitBlockSettingsClicked b s"

definition settingsToggleClicked :: "toolbar \<Rightarrow> toolbar outcome" where
  "settingsToggleClicked s =
     emitBlockSettingsClicked (hoveredBlock s)
       (s\<lparr>BlockManager_currentBlock := hoveredBlock s,
          calls := calls s @ [SetCurrentBlock (hoveredBlock s)]\<rparr>)"

subsection \<open>Construction, bindings, read-only\<close>

text \<open>
  \<open>make\<close> (here \<open>make_toolbar\<close>, as \<open>open\<close> is \<open>open_toolbar\<close>) assigns the
  wrapper, the content zone, the actions zone and the settings
  toggler; \<open>nodes.plusButton\<close> is declared and never assigned. The tooltip it builds
  and the parent links made by \<open>$.append\<close> are not read by any method below; the
  helpers it calls for them (\<open>I18n.ui\<close>, \<open>tooltip.onHover\<close>, \<open>$.append\<close>) are
  taken to return.
\<close>

definition make_toolbar :: "toolbar \<Rightarrow> toolbar outcome" where
  "make_toolbar s =
     Returned (s\<lparr>nodes := (nodes s)
       \<lparr>wrapper := Some (dom_make ''div'' CSS_toolbar),
        content := Some (dom_make ''div'' CSS_content),
        actions := Some (dom_make ''div'' CSS_actions),
        settingsToggler := Some (dom_make ''span'' CSS_settingsToggler)\<rparr>\<rparr>)"

definition drawUI :: "toolbar \<Rightarrow> toolbar outcome" where
  "drawUI s = make_toolbar s"

definition enableModuleBindings :: "toolbar \<Rightarrow> toolbar outcome" where
  "enableModuleBindings s =
     (let s1 = s\<lparr>readOnlyMutableListeners :=
                  readOnlyMutableListeners s @ [MousedownOnSettingsToggler]\<rparr>
      in if \<not> isMobileScreen s1
         then Returned (s1\<lparr>eventsDispatcher := eventsDispatcher s1 @ [HoverMoveAndOpen]\<rparr>)
         else Returned s1)"

text \<open>
  Modelled from the spec: \<open>readOnlyMutableListeners.clearAll\<close> of the base module
  (\<open>__module\<close>, not under src/) removes every handler it holds.
\<close>

definition disableModuleBindings :: "toolbar \<Rightarrow> toolbar outcome" where
  "disableModuleBindings s = Returned (s\<lparr>readOnlyMutableListeners := []\<rparr>)"

text \<open>
  Modelled from the spec: \<open>removeAllNodes\<close> of the base module (\<open>__module\<close>, not
  under src/) tears down all constructed UI nodes, after which none is present; the
  source's comment on \<open>destroy\<close> says the same ("Removes all created and saved
  HTMLElements").
\<close>

definition removeAllNodes :: "ToolbarNodes \<Rightarrow> ToolbarNodes" where
  "removeAllNodes n =
     \<lparr>wrapper = None, content = None, actions = None, plusButton = None, settingsToggler = None\<rparr>"

definition destroy :: "toolbar \<Rightarrow> toolbar outcome" where
  "destroy s = Returned (s\<lparr>nodes := removeAllNodes (nodes s)\<rparr>)"

definition toggleReadOnly :: "bool \<Rightarrow> toolbar \<Rightarrow> toolbar outcome" where
  "toggleReadOnly readOnlyEnabled s =
     (if \<not> readOnlyEnabled \<and> \<not> (case hideConfigToolbar s of None \<Rightarrow> True | Some h \<Rightarrow> h)
      then Returned (s\<lparr>idleCallbacks := idleCallbacks s
                         @ [\<lparr>callback = DrawUIThenEnableBindings, timeout = 2000\<rparr>]\<rparr>)
      else andThen (destroy s) disableModuleBindings)"

text \<open>
  The browser running the oldest pending idle callback (at an idle moment, or at the
  latest when its timeout has passed); with none pending nothing happens.
\<close>

fun run_idle_callback :: "idle_callback \<Rightarrow> toolbar \<Rightarrow> toolbar outcome" where
  "run_idle_callback DrawUIThenEnableBindings s = andThen (drawUI s) enableModuleBindings"

definition runIdle :: "toolbar \<Rightarrow> toolbar outcome" where
  "runIdle s =
     (case idleCallbacks s of
        [] \<Rightarrow> Returned s
      | r # rs \<Rightarrow> run_idle_callback (callback r) (s\<lparr>idleCallbacks := rs\<rparr>))"

text \<open>
  The \<open>mousedown\<close> handler bound to the settings toggler:
  \<open>e.stopPropagation()\<close> and \<open>tooltip.hide(true)\<close> leave this state alone.
\<close>

fun run_listener :: "listener \<Rightarrow> toolbar \<Rightarrow> toolbar outcome" where
  "run_listener MousedownOnSettingsToggler s = settingsToggleClicked s"

text \<open>A module instance before any construction, in a given editor.\<close>

definition fresh :: "bool option \<Rightarrow> block list \<Rightarrow> block option \<Rightarrow> bool \<Rightarrow> bool \<Rightarrow> bool \<Rightarrow> toolbar" where
  "fresh hide bs cur mobile readOnly mobileScreen =
     \<lparr>nodes = \<lparr>wrapper = None, content = None, actions = None, plusButton = None,
               settingsToggler = None\<rparr>,
      hoveredBlock = None,
      hideConfigToolbar = hide,
      BlockManager_blocks = bs,
      BlockManager_currentBlock = cur,
      UI_isMobile = mobile,
      ReadOnly_isEnabled = readOnly,
      isMobileScreen = mobileScreen,
      readOnlyMutableListeners = [],
      eventsDispatcher = [],
      idleCallbacks = [],
      calls = []\<rparr>"

subsection \<open>Reachable states\<close>

text \<open>
  What can happen to a module instance: a call of one of its methods, the browser
  running a pending idle callback, the toggler's \<open>mousedown\<close> handler, an emission on
  the events dispatcher, and the rest of the editor changing what the module only reads
  (the blocks, the current block, the viewport flags, the read-only flag).
\<close>

datatype operation =
    MoveAndOpen "block option"
  | Open bool
  | Close
  | Activate "block option"
  | ToggleReadOnly bool
  | RunIdle
  | SettingsTogglerMousedown
  | EmitEvent channel "block option"
  | EditorChanges "block list" "block option" bool bool bool

fun perform :: "operation \<Rightarrow> toolbar \<Rightarrow> toolbar outcome" where
  "perform (MoveAndOpen b) s = moveAndOpen b s"
| "perform (Open withBlockActions) s = open_toolbar withBlockActions s"
| "perform Close s = close s"
| "perform (Activate b) s = activate b s"
| "perform (ToggleReadOnly r) s = toggleReadOnly r s"
| "perform RunIdle s = runIdle s"
| "perform SettingsTogglerMousedown s = run_listener MousedownOnSettingsToggler s"
| "perform (EmitEvent ch b) s = emit ch b s"
| "perform (EditorChanges bs cur mobile readOnly mobileScreen) s =
     Returned (s\<lparr>BlockManager_blocks := bs, BlockManager_currentBlock := cur,
                 UI_isMobile := mobile, ReadOnly_isEnabled := readOnly,
                 isMobileScreen := mobileScreen\<rparr>)"

inductive reachable :: "toolbar \<Rightarrow> bool" where
  start: "reachable (fresh hide bs cur mobile readOnly mobileScreen)"
| step: "reachable s \<Longrightarrow> reachable (state_of (perform op s))"

text \<open>
  The spec's invariant, with the absent wrapper counted as closed: the actions zone is
  visible only on a wrapper that carries the opened marker.
\<close>

definition closed_hides_actions :: "toolbar \<Rightarrow> bool" where
  "closed_hides_actions s = (actionsVisible s \<longrightarrow> opened s = Inr True)"


section \<open>The block tunes\<close>

text \<open>
  The capability handle a tune is given (\<open>this.api\<close>) and the window it reads. The
  Block Sequence behind the handle is an external collaborator: the calls a tune makes
  on it are logged in order, and their effect on the sequence is the one the spec gives.
\<close>

datatype api_call =
    ScrollTo rat rat
  | BlocksMove int
  | BlocksDelete
  | ToggleBlockSettings bool

record editor_api =
  blocks :: "block list"
  currentBlockIndex :: int
  window_innerHeight :: int
  window_scrollY :: rat
  blockSettingsOpened :: bool
  i18n_t :: "string \<Rightarrow> string"
  api_calls :: "api_call list"

definition getCurrentBlockIndex :: "editor_api \<Rightarrow> int" where
  "getCurrentBlockIndex a = currentBlockIndex a"

text \<open>
  Modelled from the spec: block lookup by index (\<open>api.blocks.getBlockByIndex\<close>, not
  under src/); an index outside the sequence gives no block.
\<close>

definition getBlockByIndex :: "editor_api \<Rightarrow> int \<Rightarrow> block option" where
  "getBlockByIndex a i =
     (if 0 \<le> i \<and> i < int (length (blocks a)) then Some (blocks a ! nat i) else None)"

text \<open>
  Modelled from the spec: the move-by-index command (\<open>api.blocks.move(toIndex)\<close>, not
  under src/) takes the current block out of the sequence and puts it back at
  \<open>toIndex\<close>, where it stays the current block; with an index outside the sequence the
  sequence is left as it is.
\<close>

definition list_move :: "nat \<Rightarrow> nat \<Rightarrow> 'a list \<Rightarrow> 'a list" where
  "list_move fromIndex toIndex xs =
     (let rest = take fromIndex xs @ drop (Suc fromIndex) xs
      in take toIndex rest @ [xs ! fromIndex] @ drop toIndex rest)"

definition blocks_move :: "int \<Rightarrow> editor_api \<Rightarrow> editor_api" where
  "blocks_move toIndex a =
     (let a1 = a\<lparr>api_calls := api_calls a @ [BlocksMove toIndex]\<rparr>;
          fromIndex = currentBlockIndex a;
          n = int (length (blocks a))
      in if 0 \<le> toIndex \<and> toIndex < n \<and> 0 \<le> fromIndex \<and> fromIndex < n
         then a1\<lparr>blocks := list_move (nat fromIndex) (nat toIndex) (blocks a),
                 currentBlockIndex := toIndex\<rparr>
         else a1)"

text \<open>
  Modelled from the spec: the delete-current command (\<open>api.blocks.delete()\<close>, not
  under src/) removes the current block from the sequence.
\<close>

definition blocks_delete :: "editor_api \<Rightarrow> editor_api" where
  "blocks_delete a =
     (let a1 = a\<lparr>api_calls := api_calls a @ [BlocksDelete]\<rparr>;
          i = currentBlockIndex a
      in if 0 \<le> i \<and> i < int (length (blocks a))
         then a1\<lparr>blocks := take (nat i) (blocks a) @ drop (Suc (nat i)) (blocks a)\<rparr>
         else a1)"

text \<open>
  Modelled from the spec: the toolbar-settings-visibility command
  (\<open>api.toolbar.toggleBlockSettings(openingState)\<close>, not under src/) opens or closes
  the Block Settings panel as told.
\<close>

definition toggleBlockSettings :: "bool \<Rightarrow> editor_api \<Rightarrow> editor_api" where
  "toggleBlockSettings openingState a =
     a\<lparr>blockSettingsOpened := openingState,
       api_calls := api_calls a @ [ToggleBlockSettings openingState]\<rparr>"

text \<open>
  \<open>window.scrollTo(x, y)\<close>: the call is logged; where the page ends up is the
  browser's business (it clamps to the document), and no tune reads it back.
\<close>

definition window_scrollTo :: "rat \<Rightarrow> rat \<Rightarrow> editor_api \<Rightarrow> editor_api" where
  "window_scrollTo x y a = a\<lparr>api_calls := api_calls a @ [ScrollTo x y]\<rparr>"

subsection \<open>MoveDownTune\<close>

definition scrollOffset :: "editor_api \<Rightarrow> block \<Rightarrow> rat" where
  "scrollOffset a nextBlock =
     (if holder_rect_top nextBlock < of_int (window_innerHeight a)
      then window_scrollY a + of_int (holder_offsetHeight nextBlock)
      else \<bar>of_int (window_innerHeight a) - of_int (holder_offsetHeight nextBlock)\<bar>)"

definition MoveDownTune_handleClick :: "editor_api \<Rightarrow> editor_api outcome" where
  "MoveDownTune_handleClick a =
     (let currentBlockIndex = getCurrentBlockIndex a;
          nextBlock = getBlockByIndex a (currentBlockIndex + 1)
      in case nextBlock of
           None \<Rightarrow> Thrown (Error ''Unable to move Block down since it is already the last'') a
         | Some nb \<Rightarrow>
             (let a1 = window_scrollTo 0 (scrollOffset a nb) a;
                  a2 = blocks_move (currentBlockIndex + 1) a1;
                  a3 = toggleBlockSettings True a2
              in Returned a3))"

subsection \<open>Menu entries\<close>

text \<open>
  The descriptor \<open>render\<close> returns (the icon markup is left out). Its callbacks are
  closures over the tune; each is named after the method it calls.
\<close>

datatype tune_callback = MoveDown_handleClick | Delete_handleClick

record confirmation_entry =
  confirm_title :: string
  confirm_onActivate :: tune_callback

record menu_entry =
  title :: string
  name :: string
  onActivate :: "tune_callback option"
  isDisabled :: "bool option"
  confirmation :: "confirmation_entry option"

definition MoveDownTune_render :: "editor_api \<Rightarrow> menu_entry" where
  "MoveDownTune_render a =
     \<lparr>title = i18n_t a ''Move down'',
      name = ''move-down'',
      onActivate = Some MoveDown_handleClick,
      isDisabled = None,
      confirmation = None\<rparr>"

subsection \<open>DeleteTune\<close>

definition DeleteTune_handleClick :: "editor_api \<Rightarrow> editor_api outcome" where
  "DeleteTune_handleClick a = Returned (blocks_delete a)"

text \<open>
  \<open>render\<close> reads \<open>.editable\<close> of the block at the current index with no check that
  there is one.
\<close>

definition DeleteTune_render :: "editor_api \<Rightarrow> error + menu_entry" where
  "DeleteTune_render a =
     (case getBlockByIndex a (getCurrentBlockIndex a) of
        None \<Rightarrow> Inl (TypeError ''editable'')
      | Some b \<Rightarrow>
          Inr \<lparr>title = i18n_t a ''Delete'',
               name = ''delete'',
               onActivate = None,
               isDisabled = Some (\<not> editable b),
               confirmation = Some \<lparr>confirm_title = i18n_t a ''Click to delete'',
                                     confirm_onActivate = Delete_handleClick\<rparr>\<rparr>)"

fun run_callback :: "tune_callback \<Rightarrow> editor_api \<Rightarrow> editor_api outcome" where
  "run_callback MoveDown_handleClick a = MoveDownTune_handleClick a"
| "run_callback Delete_handleClick a = DeleteTune_handleClick a"

text \<open>
  Modelled from the spec: the Settings Panel's handling of an activation of a menu
  entry (the panel is not under src/). An entry with a confirmation sub-descriptor is
  armed by its first activation, and the activation that follows runs the
  confirmation's \<open>onActivate\<close>; an entry without one runs its own \<open>onActivate\<close>. The
  flag says whether the entry is armed; the result gives the flag after the activation.
\<close>

definition activateEntry :: "menu_entry \<Rightarrow> bool \<Rightarrow> editor_api \<Rightarrow> bool \<times> editor_api outcome" where
  "activateEntry entry armed a =
     (case confirmation entry of
        Some c \<Rightarrow>
          (if armed then (False, run_callback (confirm_onActivate c) a)
           else (True, Returned a))
      | None \<Rightarrow>
          (armed, case onActivate entry of
                    Some cb \<Rightarrow> run_callback cb a
                  | None \<Rightarrow> Returned a))"

section \<open>Example inputs\<close>

text \<open>
  The blocks of the spec's scenarios: \<open>A\<close> is empty, \<open>B\<close> has top offset 120,
  height 40 and a computed content padding-top of \<open>8px\<close>. \<open>built\<close> is a module
  instance whose UI has been constructed, in an editor holding the given blocks.
\<close>

definition blockA :: block where
  "blockA = \<lparr>block_id = ''A'', holder_offsetTop = 0, holder_offsetHeight = 120, holder_rect_top = 0,
             pluginsContent_paddingTop = ''6.4px'', isEmpty = True, editable = False\<rparr>"

definition blockB :: block where
  "blockB = \<lparr>block_id = ''B'', holder_offsetTop = 120, holder_offsetHeight = 40, holder_rect_top = 120,
             pluginsContent_paddingTop = ''8px'', isEmpty = False, editable = True\<rparr>"

definition built :: "block list \<Rightarrow> bool \<Rightarrow> bool \<Rightarrow> toolbar" where
  "built bs mobile readOnly =
     state_of (make_toolbar (fresh (Some False) bs None mobile readOnly False))"

definition example_api :: "int \<Rightarrow> editor_api" where
  "example_api i =
     \<lparr>blocks = [blockA, blockB], currentBlockIndex = i, window_innerHeight = 800,
      window_scrollY = 25, blockSettingsOpened = False, i18n_t = (\<lambda>s. s), api_calls = []\<rparr>"

section \<open>Lists and class lists\<close>

lemma list_move_append:
  "list_move (length as) (Suc (length as)) (as @ a # b # bs) = as @ b # a # bs"
  by (simp add: list_move_def)

lemma list_move_next:
  assumes h: "Suc i < length xs"
  shows "list_move i (Suc i) xs = xs[i := xs ! Suc i, Suc i := xs ! i]"
proof -
  define as where "as = take i xs"
  define bs where "bs = drop (Suc (Suc i)) xs"
  have l: "length as = i" using h by (simp add: as_def)
  have xs: "xs = as @ xs ! i # xs ! Suc i # bs"
    using h by (simp add: as_def bs_def Cons_nth_drop_Suc Suc_lessD)
  have "list_move (length as) (Suc (length as)) (as @ xs ! i # xs ! Suc i # bs)
          = as @ xs ! Suc i # xs ! i # bs"
    by (rule list_move_append)
  moreover have "(as @ xs ! i # xs ! Suc i # bs)[length as := xs ! Suc i, Suc (length as) := xs ! i]
          = as @ xs ! Suc i # xs ! i # bs"
    by (simp add: list_update_append)
  ultimately show ?thesis using xs l by simp
qed

lemma style_top_classList_add [simp]: "style_top (classList_add c e) = style_top e"
  by (simp add: classList_add_def)

lemma style_top_classList_remove [simp]: "style_top (classList_remove c e) = style_top e"
  by (simp add: classList_remove_def)

lemma contains_add [simp]: "classList_contains c (classList_add c e)"
  by (simp add: classList_add_def classList_contains_def)

lemma contains_remove [simp]: "\<not> classList_contains c (classList_remove c e)"
  by (simp add: classList_remove_def classList_contains_def)

section \<open>The settings toggler's click\<close>

lemma no_subscriber_of_SettingsClicked:
  "filter (\<lambda>h. channel_of h = SettingsClicked) hs = []"
  by (induction hs) (auto elim: channel_of.elims)

text \<open>
  C9. A click on the settings toggler first sets the Block Manager's current block to
  the hovered block and then emits "settings clicked" carrying that same block: the two
  calls are appended to the log in this order, and nothing else of the state changes, so
  the nodes, and with them the open or closed state of the toolbar, are as before. The
  toggler's mousedown handler does exactly this.
\<close>

theorem settingsToggleClicked_sets_current_then_emits:
  "settingsToggleClicked s =
     Returned (s\<lparr>BlockManager_currentBlock := hoveredBlock s,
                 calls := calls s @ [SetCurrentBlock (hoveredBlock s),
                                     Emit SettingsClicked (hoveredBlock s)]\<rparr>)
   \<and> run_listener MousedownOnSettingsToggler s = settingsToggleClicked s
   \<and> nodes (state_of (settingsToggleClicked s)) = nodes s
   \<and> opened (state_of (settingsToggleClicked s)) = opened s"
  by (simp add: settingsToggleClicked_def emitBlockSettingsClicked_def emit_def
      no_subscriber_of_SettingsClicked opened_def)

section \<open>close\<close>

text \<open>
  What \<open>close()\<close> does where it returns. While read-only is enabled it returns with
  the state unchanged, in every state. Otherwise, on a toolbar whose wrapper and actions
  zone exist, it returns with the open marker removed from the wrapper, the actions zone
  hidden and the wrapper's vertical offset set to \<open>unset\<close>, whatever it was before;
  every other part of the state is as before.
\<close>

lemma close_resets_or_ignores:
  "(ReadOnly_isEnabled s \<longrightarrow> close s = Returned s) \<and>
   (\<not> ReadOnly_isEnabled s \<and> wrapper (nodes s) = Some w \<and> actions (nodes s) = Some a \<longrightarrow>
      close s = Returned (s\<lparr>nodes := (nodes s)
          \<lparr>wrapper := Some ((classList_remove CSS_toolbarOpened w)\<lparr>style_top := TopUnset\<rparr>),
           actions := Some (classList_remove CSS_actionsOpened a)\<rparr>\<rparr>)
      \<and> opened (state_of (close s)) = Inr False
      \<and> \<not> actionsVisible (state_of (close s))
      \<and> verticalOffset (state_of (close s)) = Some TopUnset)"
  by (simp add: close_def blockActions_hide_def reset_def opened_def actionsVisible_def
      verticalOffset_def classList_contains_def classList_remove_def)

text \<open>
  The same on the scenario's toolbar after a hover of \<open>B\<close>: with read-only enabled
  nothing changes, otherwise the toolbar ends closed with its offset unset.
\<close>

lemma close_resets_or_ignores_example:
  "ReadOnly_isEnabled (built [blockB] False True)
   \<and> close (built [blockB] False True) = Returned (built [blockB] False True)
   \<and> \<not> ReadOnly_isEnabled (state_of (moveAndOpen (Some blockB) (built [blockB] False False)))
   \<and> verticalOffset (state_of (moveAndOpen (Some blockB) (built [blockB] False False)))
       = Some (TopPx (Num 128))
   \<and> opened (state_of (close (state_of (moveAndOpen (Some blockB) (built [blockB] False False)))))
       = Inr False
   \<and> \<not> actionsVisible
        (state_of (close (state_of (moveAndOpen (Some blockB) (built [blockB] False False)))))
   \<and> verticalOffset
        (state_of (close (state_of (moveAndOpen (Some blockB) (built [blockB] False False)))))
       = Some TopUnset"
proof -
  let ?r = "built [blockB] False True"
  let ?s = "state_of (moveAndOpen (Some blockB) (built [blockB] False False))"
  have r: "ReadOnly_isEnabled ?r"
    by (simp add: built_def make_toolbar_def fresh_def)
  have s: "\<not> ReadOnly_isEnabled ?s \<and> wrapper (nodes ?s) \<noteq> None \<and> actions (nodes ?s) \<noteq> None
           \<and> verticalOffset ?s = Some (TopPx (Num 128))"
    by (simp add: built_def make_toolbar_def fresh_def moveAndOpen_def blockTunesToggler_show_def
        blockTunesToggler_hide_def open_toolbar_def blockActions_show_def verticalOffset_def
        toolbarY_def parseInt_def blockB_def isDigit_def isWhiteSpace_def digitsValue_def
        digitValue_def Let_def)
  then obtain w a where wa: "wrapper (nodes ?s) = Some w" "actions (nodes ?s) = Some a"
    by auto
  have c: "opened (state_of (close ?s)) = Inr False \<and> \<not> actionsVisible (state_of (close ?s))
           \<and> verticalOffset (state_of (close ?s)) = Some TopUnset"
    using close_resets_or_ignores [of ?s w a] s wa by blast
  have r': "close ?r = Returned ?r"
    using close_resets_or_ignores [of ?r] r by blast
  show ?thesis using r r' s c by blast
qed

text \<open>
  C6. The claim is made for every toolbar state, and it fails on the states in which the
  UI has not been constructed: a fresh instance, which is also all that an editor gets
  whose configuration leaves \<open>hideConfigToolbar\<close> unset. There, with read-only
  disabled, \<open>close()\<close> passes the absent wrapper through the optional chaining and
  throws a TypeError at \<open>blockActions.hide()\<close>, before \<open>reset()\<close> is reached: it
  does not return, no vertical offset is set to \<open>unset\<close>, and the \<open>opened\<close> getter
  of the state it leaves throws as well. On constructed toolbars, and in read-only mode,
  the claim holds (the lemma above).
\<close>

theorem close_without_nodes_resets_nothing:
  "\<not> ReadOnly_isEnabled (fresh None [blockA, blockB] (Some blockA) False False False)
   \<and> close (fresh None [blockA, blockB] (Some blockA) False False False)
       = Thrown (TypeError ''classList'') (fresh None [blockA, blockB] (Some blockA) False False False)
   \<and> verticalOffset (state_of (close (fresh None [blockA, blockB] (Some blockA) False False False)))
       = None
   \<and> opened (state_of (close (fresh None [blockA, blockB] (Some blockA) False False False)))
       = Inl (TypeError ''classList'')"
  by (simp add: close_def fresh_def blockActions_hide_def verticalOffset_def opened_def)

section \<open>Calls before construction\<close>

lemma moveAndOpen_ignores_absent_target:
  "(wrapper (nodes s) = None \<longrightarrow> moveAndOpen arg s = Returned s) \<and>
   (BlockManager_currentBlock s = None \<longrightarrow> moveAndOpen None s = Returned s)"
  by (simp add: moveAndOpen_def split: option.split)

text \<open>
  C3. Before the UI is constructed \<open>moveAndOpen\<close> is a silent no-op, as is
  \<open>moveAndOpen\<close> with no block passed and no current block to default to (the lemma
  above), and so is \<open>close()\<close> in read-only mode. With read-only disabled, however,
  \<open>close()\<close> on a module instance that has no nodes does not return: the optional
  chaining lets it pass the absent wrapper, and \<open>blockActions.hide()\<close> then reads
  \<open>classList\<close> of the absent actions zone, which throws a TypeError. This is so on a
  fresh instance, and on an instance of an editor whose configuration leaves
  \<open>hideConfigToolbar\<close> unset after \<open>toggleReadOnly(false)\<close>.
\<close>

theorem close_before_construction_throws:
  "close (fresh None [] None False False False)
     = Thrown (TypeError ''classList'') (fresh None [] None False False False)
   \<and> close (state_of (toggleReadOnly False (fresh None [blockB] (Some blockB) False False False)))
     = Thrown (TypeError ''classList'') (fresh None [blockB] (Some blockB) False False False)"
  by (simp add: close_def fresh_def blockActions_hide_def toggleReadOnly_def destroy_def
      disableModuleBindings_def removeAllNodes_def)

section \<open>Moving a block down\<close>

lemma move_down_entry_calls_handleClick:
  "onActivate (MoveDownTune_render a) = Some MoveDown_handleClick
   \<and> confirmation (MoveDownTune_render a) = None
   \<and> run_callback MoveDown_handleClick a = MoveDownTune_handleClick a"
  by (simp add: MoveDownTune_render_def)

text \<open>
  C4. When the current block is the last block, activating the move-down tune throws
  the error "Unable to move Block down since it is already the last" and leaves the
  whole state as it was: the sequence is unchanged and no call (no scroll, no move, no
  toggle of the settings) has been made.
\<close>

theorem move_down_on_last_block_throws:
  "currentBlockIndex a = int (length (blocks a)) - 1 \<Longrightarrow>
   MoveDownTune_handleClick a
     = Thrown (Error ''Unable to move Block down since it is already the last'') a"
  by (simp add: MoveDownTune_handleClick_def getCurrentBlockIndex_def getBlockByIndex_def)

theorem move_down_on_last_block_throws_witness:
  "currentBlockIndex (example_api 1) = int (length (blocks (example_api 1))) - 1
   \<and> MoveDownTune_handleClick (example_api 1)
       = Thrown (Error ''Unable to move Block down since it is already the last'') (example_api 1)
   \<and> blocks (state_of (MoveDownTune_handleClick (example_api 1))) = [blockA, blockB]
   \<and> api_calls (state_of (MoveDownTune_handleClick (example_api 1))) = []"
proof -
  have h: "currentBlockIndex (example_api 1) = int (length (blocks (example_api 1))) - 1"
    by (simp add: example_api_def)
  from h move_down_on_last_block_throws [OF h] show ?thesis
    by (simp add: example_api_def)
qed

text \<open>
  C10. When the current block is not the last one, activating the move-down tune
  returns after three calls, in this order: \<open>window.scrollTo(0, scrollOffset)\<close>, the
  move of the current block to the next index, and \<open>toggleBlockSettings(true)\<close>. The
  scroll offset is the window's \<open>scrollY\<close> plus the next block's height whenever the
  next block's top edge is above the bottom of the viewport (in particular when it is
  within the viewport). After the call the two blocks have swapped places, the moved
  block is the current one, and the Block Settings panel is open.
\<close>

theorem move_down_scrolls_moves_then_opens_settings:
  assumes "0 \<le> currentBlockIndex a"
    and "currentBlockIndex a + 1 < int (length (blocks a))"
  shows "\<exists>a'. MoveDownTune_handleClick a = Returned a' \<and>
     api_calls a' = api_calls a @
       [ScrollTo 0 (scrollOffset a (blocks a ! Suc (nat (currentBlockIndex a)))),
        BlocksMove (currentBlockIndex a + 1),
        ToggleBlockSettings True] \<and>
     blocks a' = (blocks a)
       [nat (currentBlockIndex a) := blocks a ! Suc (nat (currentBlockIndex a)),
        Suc (nat (currentBlockIndex a)) := blocks a ! nat (currentBlockIndex a)] \<and>
     currentBlockIndex a' = currentBlockIndex a + 1 \<and>
     blockSettingsOpened a' \<and>
     (holder_rect_top (blocks a ! Suc (nat (currentBlockIndex a))) < of_int (window_innerHeight a)
        \<longrightarrow> scrollOffset a (blocks a ! Suc (nat (currentBlockIndex a)))
            = window_scrollY a
              + of_int (holder_offsetHeight (blocks a ! Suc (nat (currentBlockIndex a)))))"
proof -
  define i where "i = nat (currentBlockIndex a)"
  have s: "Suc i < length (blocks a)" using assms by (simp add: i_def)
  have n: "nat (currentBlockIndex a + 1) = Suc i" using assms by (simp add: i_def nat_add_distrib)
  have g: "getBlockByIndex a (currentBlockIndex a + 1) = Some (blocks a ! Suc i)"
    using assms n by (simp add: getBlockByIndex_def)
  show ?thesis
    using assms g n list_move_next [OF s]
    by (simp add: MoveDownTune_handleClick_def getCurrentBlockIndex_def window_scrollTo_def
        blocks_move_def toggleBlockSettings_def scrollOffset_def i_def Let_def)
qed

theorem move_down_scrolls_moves_then_opens_settings_witness:
  "0 \<le> currentBlockIndex (example_api 0)
   \<and> currentBlockIndex (example_api 0) + 1 < int (length (blocks (example_api 0)))
   \<and> holder_rect_top blockB < of_int (window_innerHeight (example_api 0))
   \<and> api_calls (state_of (MoveDownTune_handleClick (example_api 0)))
       = [ScrollTo 0 65, BlocksMove 1, ToggleBlockSettings True]
   \<and> blocks (state_of (MoveDownTune_handleClick (example_api 0))) = [blockB, blockA]
   \<and> blockSettingsOpened (state_of (MoveDownTune_handleClick (example_api 0)))"
proof -
  have h: "0 \<le> currentBlockIndex (example_api 0)"
    "currentBlockIndex (example_api 0) + 1 < int (length (blocks (example_api 0)))"
    by (simp_all add: example_api_def)
  from move_down_scrolls_moves_then_opens_settings [OF h]
  obtain a' where "MoveDownTune_handleClick (example_api 0) = Returned a'"
    and "api_calls a' = api_calls (example_api 0) @
       [ScrollTo 0 (scrollOffset (example_api 0)
          (blocks (example_api 0) ! Suc (nat (currentBlockIndex (example_api 0))))),
        BlocksMove (currentBlockIndex (example_api 0) + 1),
        ToggleBlockSettings True]"
    and "blocks a' = (blocks (example_api 0))
       [nat (currentBlockIndex (example_api 0)) :=
          blocks (example_api 0) ! Suc (nat (currentBlockIndex (example_api 0))),
        Suc (nat (currentBlockIndex (example_api 0))) :=
          blocks (example_api 0) ! nat (currentBlockIndex (example_api 0))]"
    and "blockSettingsOpened a'"
    by blast
  then show ?thesis
    by (simp add: example_api_def scrollOffset_def blockB_def)
qed

section \<open>Parsing the computed padding\<close>

lemma isDigit_digitChar: "d < 10 \<Longrightarrow> isDigit (digitChar d)"
  by (simp add: isDigit_def digitChar_def)

lemma digitValue_digitChar: "d < 10 \<Longrightarrow> digitValue (digitChar d) = d"
  by (simp add: digitValue_def digitChar_def)

lemma decimal_digits: "c \<in> set (decimal n) \<Longrightarrow> isDigit c"
proof (induction n rule: decimal.induct)
  case (1 n)
  then show ?case
    by (subst (asm) decimal.simps) (auto simp: isDigit_digitChar split: if_splits)
qed

lemma decimal_nonempty: "decimal n \<noteq> []"
  by (subst decimal.simps) simp

lemma digitsValue_snoc: "digitsValue (cs @ [c]) = 10 * digitsValue cs + digitValue c"
  by (simp add: digitsValue_def)

lemma digitsValue_decimal: "digitsValue (decimal n) = n"
proof (induction n rule: decimal.induct)
  case (1 n)
  show ?case
  proof (cases "n < 10")
    case True
    then show ?thesis by (subst decimal.simps) (simp add: digitsValue_def digitValue_digitChar)
  next
    case False
    then have "digitsValue (decimal (n div 10)) = n div 10" using 1 by simp
    with False show ?thesis
      by (subst decimal.simps) (simp add: digitsValue_snoc digitValue_digitChar)
  qed
qed

lemma digit_not_space: "isDigit c \<Longrightarrow> \<not> isWhiteSpace c"
  by (auto simp: isDigit_def isWhiteSpace_def)

lemma digit_not_sign: "isDigit c \<Longrightarrow> c \<noteq> CHR ''-'' \<and> c \<noteq> CHR ''+''"
  by (auto simp: isDigit_def)

lemma parseInt_decimal:
  assumes "rest = [] \<or> \<not> isDigit (hd rest)"
  shows "parseInt (decimal n @ rest) = Num (of_nat n)"
proof -
  obtain c cs where d: "decimal n = c # cs" using decimal_nonempty by (cases "decimal n") auto
  have c: "isDigit c" using decimal_digits[of c n] d by simp
  have tw: "takeWhile isDigit (decimal n @ rest) = decimal n"
    using assms decimal_digits[of _ n] by (cases rest) (auto simp: takeWhile_append2 takeWhile_eq_all_conv)
  have dw: "dropWhile isWhiteSpace (decimal n @ rest) = decimal n @ rest"
    using d c digit_not_space by simp
  show ?thesis
    unfolding parseInt_def dw Let_def
    using d c digit_not_sign[OF c] tw digitsValue_decimal[of n] decimal_nonempty[of n]
    by (simp del: takeWhile_append2)
qed

lemma parseInt_css_px: "parseInt (css_px w ds) = Num (of_nat w)"
  unfolding css_px_def by (rule parseInt_decimal) (simp add: isDigit_def)

lemma fraction_bound: "\<forall>d\<in>set ds. d < 10 \<Longrightarrow> foldl (\<lambda>acc d. 10 * acc + d) 0 ds < (10::nat) ^ length ds"
proof (induction ds rule: rev_induct)
  case Nil
  then show ?case by simp
next
  case (snoc d ds)
  then have "foldl (\<lambda>acc d. 10 * acc + d) 0 ds < (10::nat) ^ length ds" "d < 10" by simp_all
  then show ?case by simp
qed

lemma floor_px_value:
  assumes "\<forall>d\<in>set ds. d < 10"
  shows "\<lfloor>of_int t + px_value w ds\<rfloor> = t + int w"
proof -
  define f :: rat where "f = of_nat (foldl (\<lambda>acc d. 10 * acc + d) 0 ds) / 10 ^ length ds"
  have "of_nat (foldl (\<lambda>acc d. 10 * acc + d) 0 ds) < (of_nat (10 ^ length ds) :: rat)"
    using fraction_bound[OF assms] by (simp only: of_nat_less_iff)
  then have "0 \<le> f" "f < 1" by (simp_all add: f_def)
  moreover have "of_int t + px_value w ds = of_int (t + int w) + f"
    by (simp add: px_value_def f_def)
  ultimately show ?thesis by (simp add: floor_unique)
qed

section \<open>moveAndOpen\<close>

lemma moveAndOpen_top:
  "wrapper (nodes s) = Some w \<Longrightarrow>
   verticalOffset (state_of (moveAndOpen (Some b) s))
     = Some (TopPx (Math_floor (toolbarY (UI_isMobile s) b)))"
  by (simp add: moveAndOpen_def Let_def verticalOffset_def blockTunesToggler_hide_def
      blockTunesToggler_show_def open_toolbar_def blockActions_show_def split: option.split)

lemma moveAndOpen_toggler:
  "wrapper (nodes s) = Some w \<Longrightarrow> settingsToggler (nodes s) = Some t \<Longrightarrow>
   settingsTogglerHidden (state_of (moveAndOpen (Some b) s))
     = (length (BlockManager_blocks s) = 1 \<and> isEmpty b)"
  by (simp add: moveAndOpen_def Let_def settingsTogglerHidden_def blockTunesToggler_hide_def
      blockTunesToggler_show_def open_toolbar_def blockActions_show_def split: option.split)

text \<open>
  C1. For a block passed to \<open>moveAndOpen\<close> on a constructed toolbar, the offset
  applied to the wrapper is the floor of: the holder's top offset plus the holder's
  height on a mobile viewport, the holder's top offset plus the top padding of the
  rendered content on a desktop viewport. The padding is the pixel length the computed
  style gives (\<open>p\<close> whole pixels and the fraction digits \<open>ds\<close>). As the offsets are
  integers, that floor is the top offset plus the height, respectively the top offset
  plus the whole pixels of the padding.
\<close>

theorem moveAndOpen_vertical_offset:
  assumes "wrapper (nodes s) = Some w"
  shows "(UI_isMobile s \<longrightarrow>
       verticalOffset (state_of (moveAndOpen (Some b) s))
         = Some (TopPx (Num (of_int
             \<lfloor>(of_int (holder_offsetTop b) + of_int (holder_offsetHeight b)) :: rat\<rfloor>)))
     \<and> verticalOffset (state_of (moveAndOpen (Some b) s))
         = Some (TopPx (Num (of_int (holder_offsetTop b + holder_offsetHeight b)))))
   \<and> (\<not> UI_isMobile s \<and> pluginsContent_paddingTop b = css_px p ds \<and> (\<forall>d\<in>set ds. d < 10) \<longrightarrow>
       verticalOffset (state_of (moveAndOpen (Some b) s))
         = Some (TopPx (Num (of_int \<lfloor>of_int (holder_offsetTop b) + px_value p ds\<rfloor>)))
     \<and> verticalOffset (state_of (moveAndOpen (Some b) s))
         = Some (TopPx (Num (of_int (holder_offsetTop b + int p)))))"
proof (intro conjI impI)
  assume m: "UI_isMobile s"
  have f: "\<lfloor>(of_int (holder_offsetTop b) + of_int (holder_offsetHeight b)) :: rat\<rfloor>
             = holder_offsetTop b + holder_offsetHeight b"
    by (metis floor_of_int of_int_add)
  show "verticalOffset (state_of (moveAndOpen (Some b) s))
         = Some (TopPx (Num (of_int (holder_offsetTop b + holder_offsetHeight b))))"
    using moveAndOpen_top [OF assms, of b] m by (simp add: toolbarY_def)
  then show "verticalOffset (state_of (moveAndOpen (Some b) s))
         = Some (TopPx (Num (of_int
             \<lfloor>(of_int (holder_offsetTop b) + of_int (holder_offsetHeight b)) :: rat\<rfloor>)))"
    by (simp only: f)
next
  assume d: "\<not> UI_isMobile s \<and> pluginsContent_paddingTop b = css_px p ds \<and> (\<forall>d\<in>set ds. d < 10)"
  then have "\<forall>d\<in>set ds. d < 10" by blast
  then have f: "\<lfloor>of_int (holder_offsetTop b) + px_value p ds\<rfloor> = holder_offsetTop b + int p"
    by (rule floor_px_value)
  show "verticalOffset (state_of (moveAndOpen (Some b) s))
         = Some (TopPx (Num (of_int (holder_offsetTop b + int p))))"
    using moveAndOpen_top [OF assms, of b] parseInt_css_px [of p ds] d
    by (simp add: toolbarY_def)
  then show "verticalOffset (state_of (moveAndOpen (Some b) s))
         = Some (TopPx (Num (of_int \<lfloor>of_int (holder_offsetTop b) + px_value p ds\<rfloor>)))"
    by (simp only: f)
qed

text \<open>
  The spec's two scenarios: top 120 and padding-top \<open>8px\<close> on desktop give 128, top
  120 and height 40 on mobile give 160; and a fractional padding of \<open>6.4px\<close> under a
  top of 0 gives 6.
\<close>

theorem moveAndOpen_vertical_offset_witness:
  "wrapper (nodes (built [blockA, blockB] False False)) \<noteq> None
   \<and> pluginsContent_paddingTop blockB = css_px 8 []
   \<and> pluginsContent_paddingTop blockA = css_px 6 [4]
   \<and> px_value 6 [4] = 32 / 5
   \<and> verticalOffset (state_of (moveAndOpen (Some blockB) (built [blockA, blockB] False False)))
       = Some (TopPx (Num 128))
   \<and> verticalOffset (state_of (moveAndOpen (Some blockB) (built [blockA, blockB] True False)))
       = Some (TopPx (Num 160))
   \<and> verticalOffset (state_of (moveAndOpen (Some blockA) (built [blockA, blockB] False False)))
       = Some (TopPx (Num 6))"
proof -
  have d: "wrapper (nodes (built [blockA, blockB] False False)) = Some (dom_make ''div'' CSS_toolbar)"
    "\<not> UI_isMobile (built [blockA, blockB] False False)"
    by (simp_all add: built_def make_toolbar_def fresh_def)
  have m: "wrapper (nodes (built [blockA, blockB] True False)) = Some (dom_make ''div'' CSS_toolbar)"
    "UI_isMobile (built [blockA, blockB] True False)"
    by (simp_all add: built_def make_toolbar_def fresh_def)
  have pB: "pluginsContent_paddingTop blockB = css_px 8 []" by code_simp
  have pA: "pluginsContent_paddingTop blockA = css_px 6 [4]" by code_simp
  have v: "px_value 6 [4] = 32 / 5" by (simp add: px_value_def)
  have g: "holder_offsetTop blockB = 120" "holder_offsetHeight blockB = 40"
    "holder_offsetTop blockA = 0"
    by (simp_all add: blockA_def blockB_def)
  have t: "\<forall>d\<in>set [4::nat]. d < 10" "\<forall>d\<in>set ([]::nat list). d < 10" by simp_all
  have "verticalOffset (state_of (moveAndOpen (Some blockB) (built [blockA, blockB] False False)))
       = Some (TopPx (Num 128))"
    using moveAndOpen_vertical_offset [OF d(1), of blockB 8 "[]", THEN conjunct2, THEN mp,
        OF conjI [OF d(2) conjI [OF pB t(2)]], THEN conjunct2] g
    by simp
  moreover have "verticalOffset (state_of (moveAndOpen (Some blockB) (built [blockA, blockB] True False)))
       = Some (TopPx (Num 160))"
    using moveAndOpen_vertical_offset [OF m(1), of blockB, THEN conjunct1, THEN mp,
        OF m(2), THEN conjunct2] g
    by simp
  moreover have "verticalOffset (state_of (moveAndOpen (Some blockA) (built [blockA, blockB] False False)))
       = Some (TopPx (Num 6))"
    using moveAndOpen_vertical_offset [OF d(1), of blockA 6 "[4]", THEN conjunct2, THEN mp,
        OF conjI [OF d(2) conjI [OF pA t(1)]], THEN conjunct2] g
    by simp
  ultimately show ?thesis using d(1) pB pA v by simp
qed

text \<open>
  C5. After \<open>moveAndOpen\<close> of a block on a constructed toolbar, the settings toggler is
  hidden if and only if the Block Manager holds exactly one block and the block passed is
  empty; when the block passed is the one block of such a sequence, that is: if and
  only if the sequence has exactly one block and that block is empty. The marker is
  recomputed by every such call, whatever it was before.
\<close>

theorem settings_toggler_hidden_iff_single_empty_block:
  assumes "wrapper (nodes s) = Some w"
    and "settingsToggler (nodes s) = Some t"
  shows "(settingsTogglerHidden (state_of (moveAndOpen (Some b) s))
            \<longleftrightarrow> length (BlockManager_blocks s) = 1 \<and> isEmpty b)
   \<and> ((length (BlockManager_blocks s) = 1 \<longrightarrow> BlockManager_blocks s = [b]) \<longrightarrow>
        (settingsTogglerHidden (state_of (moveAndOpen (Some b) s))
            \<longleftrightarrow> (\<exists>x. BlockManager_blocks s = [x] \<and> isEmpty x)))"
  using moveAndOpen_toggler [OF assms, of b] by auto

text \<open>
  The spec's scenario: with the one empty block \<open>A\<close> the toggler is hidden; once \<open>B\<close>
  is appended a hover of \<open>A\<close>, still empty, shows it again.
\<close>

theorem settings_toggler_hidden_iff_single_empty_block_witness:
  "wrapper (nodes (built [blockA] False False)) \<noteq> None
   \<and> settingsToggler (nodes (built [blockA] False False)) \<noteq> None
   \<and> isEmpty blockA
   \<and> settingsTogglerHidden (state_of (moveAndOpen (Some blockA) (built [blockA] False False)))
   \<and> \<not> settingsTogglerHidden
        (state_of (perform (MoveAndOpen (Some blockA))
          (state_of (perform (EditorChanges [blockA, blockB] None False False False)
            (state_of (moveAndOpen (Some blockA) (built [blockA] False False)))))))"
proof -
  let ?s = "built [blockA] False False"
  let ?s1 = "state_of (moveAndOpen (Some blockA) ?s)"
  let ?s2 = "state_of (perform (EditorChanges [blockA, blockB] None False False False) ?s1)"
  have n: "wrapper (nodes ?s) = Some (dom_make ''div'' CSS_toolbar)"
    "settingsToggler (nodes ?s) = Some (dom_make ''span'' CSS_settingsToggler)"
    "BlockManager_blocks ?s = [blockA]"
    by (simp_all add: built_def make_toolbar_def fresh_def)
  have e: "isEmpty blockA" by (simp add: blockA_def)
  have h1: "settingsTogglerHidden ?s1"
    using settings_toggler_hidden_iff_single_empty_block [OF n(1) n(2), of blockA] n(3) e
    by simp
  have n2: "wrapper (nodes ?s2) \<noteq> None \<and> settingsToggler (nodes ?s2) \<noteq> None
            \<and> BlockManager_blocks ?s2 = [blockA, blockB]"
    using n by (simp add: moveAndOpen_def Let_def blockTunesToggler_hide_def
        blockTunesToggler_show_def open_toolbar_def blockActions_show_def built_def
        make_toolbar_def fresh_def)
  then obtain w t where wt: "wrapper (nodes ?s2) = Some w" "settingsToggler (nodes ?s2) = Some t"
    by auto
  have h2: "\<not> settingsTogglerHidden (state_of (moveAndOpen (Some blockA) ?s2))"
    using settings_toggler_hidden_iff_single_empty_block [OF wt, of blockA] n2 by simp
  show ?thesis using n e h1 h2 by simp
qed

section \<open>Deleting a block\<close>

text \<open>
  C7. The descriptor the delete tune renders has no \<open>onActivate\<close> of its own: its
  only callback sits in the confirmation sub-descriptor and calls \<open>api.blocks.delete()\<close>.
  So the first activation arms the confirmation and leaves the state, the sequence
  included, as it was; the second activation makes the one delete call, which removes
  the current block, and the sequence is shorter by exactly one. The descriptor's
  \<open>isDisabled\<close> is the negation of the current block's \<open>editable\<close>.
\<close>

theorem delete_needs_two_activations:
  assumes "0 \<le> currentBlockIndex a"
    and "currentBlockIndex a < int (length (blocks a))"
  shows "\<exists>entry. DeleteTune_render a = Inr entry
     \<and> onActivate entry = None
     \<and> isDisabled entry = Some (\<not> editable (blocks a ! nat (currentBlockIndex a)))
     \<and> activateEntry entry False a = (True, Returned a)
     \<and> (\<exists>a'. activateEntry entry True a = (False, Returned a')
           \<and> blocks a' = take (nat (currentBlockIndex a)) (blocks a)
                          @ drop (Suc (nat (currentBlockIndex a))) (blocks a)
           \<and> length (blocks a') + 1 = length (blocks a)
           \<and> api_calls a' = api_calls a @ [BlocksDelete])"
  using assms
  by (simp add: DeleteTune_render_def getBlockByIndex_def getCurrentBlockIndex_def
      activateEntry_def DeleteTune_handleClick_def blocks_delete_def Let_def)

text \<open>
  On the example: the tune is disabled on the non-editable \<open>A\<close> and enabled on
  \<open>B\<close>; one activation leaves both blocks, the next leaves \<open>B\<close> alone.
\<close>

theorem delete_needs_two_activations_witness:
  "0 \<le> currentBlockIndex (example_api 0)
   \<and> currentBlockIndex (example_api 0) < int (length (blocks (example_api 0)))
   \<and> map_sum (\<lambda>e. e) isDisabled (DeleteTune_render (example_api 0)) = Inr (Some True)
   \<and> map_sum (\<lambda>e. e) isDisabled (DeleteTune_render (example_api 1)) = Inr (Some False)
   \<and> blocks (state_of (snd (activateEntry (projr (DeleteTune_render (example_api 0))) False (example_api 0))))
       = [blockA, blockB]
   \<and> blocks (state_of (snd (activateEntry (projr (DeleteTune_render (example_api 0))) True (example_api 0))))
       = [blockB]"
proof -
  have h0: "0 \<le> currentBlockIndex (example_api 0)"
    "currentBlockIndex (example_api 0) < int (length (blocks (example_api 0)))"
    by (simp_all add: example_api_def)
  have h1: "0 \<le> currentBlockIndex (example_api 1)"
    "currentBlockIndex (example_api 1) < int (length (blocks (example_api 1)))"
    by (simp_all add: example_api_def)
  from delete_needs_two_activations [OF h0] delete_needs_two_activations [OF h1] h0
  show ?thesis
    by (auto simp: example_api_def blockA_def blockB_def)
qed

section \<open>The invariant of the open state\<close>

lemma state_of_andThen:
  assumes "P (state_of x)" and "\<And>s. P s \<Longrightarrow> P (state_of (f s))"
  shows "P (state_of (andThen x f))"
  using assms by (cases x) simp_all

lemma inv_fresh: "closed_hides_actions (fresh hide bs cur mobile readOnly mobileScreen)"
  by (simp add: closed_hides_actions_def fresh_def actionsVisible_def)

lemma inv_open: "closed_hides_actions s \<Longrightarrow> closed_hides_actions (state_of (open_toolbar f s))"
  by (auto simp: closed_hides_actions_def open_toolbar_def blockActions_show_def blockActions_hide_def
      actionsVisible_def opened_def Let_def split: option.splits)

lemma inv_close: "closed_hides_actions s \<Longrightarrow> closed_hides_actions (state_of (close s))"
  by (auto simp: closed_hides_actions_def close_def blockActions_hide_def reset_def
      actionsVisible_def opened_def Let_def split: option.splits)

lemma inv_toggler_hide: "closed_hides_actions s \<Longrightarrow> closed_hides_actions (state_of (blockTunesToggler_hide s))"
  by (auto simp: closed_hides_actions_def blockTunesToggler_hide_def actionsVisible_def opened_def split: option.splits)

lemma inv_toggler_show: "closed_hides_actions s \<Longrightarrow> closed_hides_actions (state_of (blockTunesToggler_show s))"
  by (auto simp: closed_hides_actions_def blockTunesToggler_show_def actionsVisible_def opened_def split: option.splits)

lemma inv_moveAndOpen: "closed_hides_actions s \<Longrightarrow> closed_hides_actions (state_of (moveAndOpen arg s))"
proof -
  assume i: "closed_hides_actions s"
  let ?block = "case arg of None \<Rightarrow> BlockManager_currentBlock s | Some b \<Rightarrow> Some b"
  show ?thesis
  proof (cases ?block)
    case None
    then show ?thesis using i by (simp add: moveAndOpen_def)
  next
    case b: (Some b)
    show ?thesis
    proof (cases "wrapper (nodes s)")
      case None
      then show ?thesis using i b by (simp add: moveAndOpen_def)
    next
      case (Some w)
      define s2 where "s2 = s\<lparr>hoveredBlock := Some b,
         nodes := (nodes s)\<lparr>wrapper := Some (w\<lparr>style_top :=
           TopPx (Math_floor (toolbarY (UI_isMobile s) b))\<rparr>)\<rparr>\<rparr>"
      have i2: "closed_hides_actions s2"
        using i Some by (simp add: s2_def closed_hides_actions_def actionsVisible_def opened_def
            classList_contains_def)
      have m: "moveAndOpen arg s =
          andThen (if length (BlockManager_blocks s2) = 1 \<and> isEmpty b
                   then blockTunesToggler_hide s2 else blockTunesToggler_show s2)
                  (open_toolbar True)"
        using b Some by (simp add: moveAndOpen_def s2_def Let_def)
      show ?thesis
        unfolding m
      proof (rule state_of_andThen)
        show "closed_hides_actions (state_of (if length (BlockManager_blocks s2) = 1 \<and> isEmpty b
                   then blockTunesToggler_hide s2 else blockTunesToggler_show s2))"
          using i2 by (simp add: inv_toggler_hide inv_toggler_show)
        show "\<And>s. closed_hides_actions s \<Longrightarrow> closed_hides_actions (state_of (open_toolbar True s))"
          by (rule inv_open)
      qed
    qed
  qed
qed

lemma inv_deliver: "closed_hides_actions s \<Longrightarrow> closed_hides_actions (state_of (deliver hs b s))"
proof (induction hs arbitrary: s)
  case Nil
  then show ?case by simp
next
  case (Cons h hs)
  show ?case
    unfolding deliver.simps
  proof (rule state_of_andThen)
    show "closed_hides_actions (state_of (run_subscriber h b s))"
      using Cons.prems by (cases h) (simp add: inv_moveAndOpen)
    show "\<And>s. closed_hides_actions s \<Longrightarrow> closed_hides_actions (state_of (deliver hs b s))"
      by (rule Cons.IH)
  qed
qed

lemma closed_hides_calls [simp]: "closed_hides_actions (s\<lparr>calls := c\<rparr>) = closed_hides_actions s"
  by (simp add: closed_hides_actions_def actionsVisible_def opened_def)

lemma closed_hides_current [simp]: "closed_hides_actions (s\<lparr>BlockManager_currentBlock := c\<rparr>) = closed_hides_actions s"
  by (simp add: closed_hides_actions_def actionsVisible_def opened_def)

lemma inv_emit: "closed_hides_actions s \<Longrightarrow> closed_hides_actions (state_of (emit ch b s))"
  by (simp add: emit_def inv_deliver)

lemma inv_toggleReadOnly: "closed_hides_actions s \<Longrightarrow> closed_hides_actions (state_of (toggleReadOnly r s))"
  by (simp add: toggleReadOnly_def destroy_def disableModuleBindings_def removeAllNodes_def
      closed_hides_actions_def actionsVisible_def opened_def)

lemma inv_runIdle: "closed_hides_actions s \<Longrightarrow> closed_hides_actions (state_of (runIdle s))"
  by (cases "idleCallbacks s"; cases "callback (hd (idleCallbacks s))")
     (simp_all add: runIdle_def drawUI_def make_toolbar_def enableModuleBindings_def
      closed_hides_actions_def actionsVisible_def opened_def dom_make_def classList_contains_def
      CSS_actions_def CSS_actionsOpened_def Let_def)

lemma inv_perform: "closed_hides_actions s \<Longrightarrow> closed_hides_actions (state_of (perform op s))"
proof (cases op)
  case (EditorChanges bs cur mobile readOnly mobileScreen)
  assume "closed_hides_actions s"
  then show ?thesis using EditorChanges
    by (simp add: closed_hides_actions_def actionsVisible_def opened_def)
qed (simp_all add: inv_moveAndOpen inv_open inv_close inv_emit inv_toggleReadOnly inv_runIdle
      activate_def emitBlockSettingsClicked_def settingsToggleClicked_def)

lemma reachable_closed_hides: "reachable s \<Longrightarrow> closed_hides_actions s"
  by (induction rule: reachable.induct) (simp_all add: inv_fresh inv_perform)


text \<open>
  C8. In every state the module can reach from a fresh instance, by any sequence of
  \<open>moveAndOpen\<close>, \<open>open\<close>, \<open>close\<close>, \<open>activate\<close>, \<open>toggleReadOnly\<close>, idle
  callbacks, toggler clicks, emissions and changes of the editor around it: when the
  toolbar is not opened (the wrapper lacks the opened marker, or there is no wrapper),
  the actions zone is not visible.
\<close>

theorem closed_toolbar_hides_actions:
  "reachable s \<Longrightarrow>
     (opened s = Inr False \<longrightarrow> \<not> actionsVisible s) \<and>
     (wrapper (nodes s) = None \<longrightarrow> \<not> actionsVisible s)"
  using reachable_closed_hides [of s]
  by (auto simp: closed_hides_actions_def opened_def)

text \<open>
  A run through construction, a hover and a close: after the hover the toolbar is
  opened with its actions visible, after the close it is closed and the actions are
  hidden.
\<close>

theorem closed_toolbar_hides_actions_witness:
  "reachable (state_of (perform Close (state_of (perform (MoveAndOpen (Some blockB))
      (state_of (perform RunIdle (state_of (perform (ToggleReadOnly False)
        (fresh (Some False) [blockB] None False False False)))))))))
   \<and> opened (state_of (perform (MoveAndOpen (Some blockB))
      (state_of (perform RunIdle (state_of (perform (ToggleReadOnly False)
        (fresh (Some False) [blockB] None False False False))))))) = Inr True
   \<and> actionsVisible (state_of (perform (MoveAndOpen (Some blockB))
      (state_of (perform RunIdle (state_of (perform (ToggleReadOnly False)
        (fresh (Some False) [blockB] None False False False)))))))
   \<and> opened (state_of (perform Close (state_of (perform (MoveAndOpen (Some blockB))
      (state_of (perform RunIdle (state_of (perform (ToggleReadOnly False)
        (fresh (Some False) [blockB] None False False False))))))))) = Inr False
   \<and> \<not> actionsVisible (state_of (perform Close (state_of (perform (MoveAndOpen (Some blockB))
      (state_of (perform RunIdle (state_of (perform (ToggleReadOnly False)
        (fresh (Some False) [blockB] None False False False)))))))))"
proof -
  let ?s2 = "state_of (perform RunIdle (state_of (perform (ToggleReadOnly False)
        (fresh (Some False) [blockB] None False False False))))"
  let ?s3 = "state_of (perform (MoveAndOpen (Some blockB)) ?s2)"
  let ?s4 = "state_of (perform Close ?s3)"
  have r: "reachable ?s4"
    by (intro reachable.step reachable.start)
  have s2: "?s2 = (fresh (Some False) [blockB] None False False False)
      \<lparr>nodes := \<lparr>wrapper = Some (dom_make ''div'' CSS_toolbar),
                 content = Some (dom_make ''div'' CSS_content),
                 actions = Some (dom_make ''div'' CSS_actions),
                 plusButton = None,
                 settingsToggler = Some (dom_make ''span'' CSS_settingsToggler)\<rparr>,
        readOnlyMutableListeners := [MousedownOnSettingsToggler],
        eventsDispatcher := [HoverMoveAndOpen]\<rparr>"
    by (simp add: toggleReadOnly_def runIdle_def drawUI_def make_toolbar_def
        enableModuleBindings_def fresh_def Let_def)
  have o3: "opened ?s3 = Inr True \<and> actionsVisible ?s3 \<and> \<not> ReadOnly_isEnabled ?s3"
    unfolding s2
    by (simp add: moveAndOpen_def blockTunesToggler_show_def blockTunesToggler_hide_def
        open_toolbar_def blockActions_show_def opened_def actionsVisible_def fresh_def Let_def)
  have o4: "opened ?s4 = Inr False"
    unfolding s2
    by (simp add: moveAndOpen_def blockTunesToggler_show_def blockTunesToggler_hide_def
        open_toolbar_def blockActions_show_def opened_def fresh_def Let_def
        close_def blockActions_hide_def reset_def classList_contains_def classList_remove_def
        classList_add_def)
  from closed_toolbar_hides_actions [OF r] o4 have "\<not> actionsVisible ?s4" by blast
  with r o3 o4 show ?thesis by blast
qed

section \<open>Read-only toggling\<close>














end
